theory Spec2Isabelle
  imports Main "HOL-Library.Sublist"
begin

section \<open>Python primitives used by the services\<close>

text \<open>
  Strings are Python \<open>str\<close> values; \<open>s.startswith(p)\<close> and \<open>s.endswith(p)\<close> are the
  prefix and suffix tests, \<open>s.replace(old, new, 1)\<close> replaces the leftmost occurrence of
  \<open>old\<close> only, and \<open>p in s\<close> is the substring test.
\<close>

definition startswith :: "string \<Rightarrow> string \<Rightarrow> bool" where
  "startswith s p = prefix p s"

definition endswith :: "string \<Rightarrow> string \<Rightarrow> bool" where
  "endswith s p = suffix p s"

fun replace_first :: "string \<Rightarrow> string \<Rightarrow> string \<Rightarrow> string" where
  "replace_first old new [] = (if old = [] then new else [])"
| "replace_first old new (c # cs) =
     (if prefix old (c # cs) then new @ drop (length old) (c # cs)
      else c # replace_first old new cs)"

fun contains :: "string \<Rightarrow> string \<Rightarrow> bool" where
  "contains [] p = (p = [])"
| "contains (c # cs) p = (prefix p (c # cs) \<or> contains cs p)"

text \<open>\<open>str(n)\<close> for an integer: its decimal digits, with a sign.\<close>

definition digit :: "nat \<Rightarrow> char" where
  "digit d = char_of (48 + d)"

function str_nat :: "nat \<Rightarrow> string" where
  "str_nat n = (if n < 10 then [digit n] else str_nat (n div 10) @ [digit (n mod 10)])"
  by pat_completeness auto
termination
  by (relation "measure (\<lambda>n. n)") auto

definition str_int :: "int \<Rightarrow> string" where
  "str_int i = (if i < 0 then CHR ''-'' # str_nat (nat (- i)) else str_nat (nat i))"

text \<open>
  JSON values, for response bodies and for the open \<open>metadata\<close> dictionaries. A clock
  reading is a number of seconds (\<open>datetime.utcnow()\<close>, \<open>time.time()\<close>); the fraction of
  a second is not modelled.
\<close>

type_synonym unix_time = int

datatype json =
    JNull
  | JBool bool
  | JNum int
  | JStr string
  | JArr "json list"
  | JObj "(string \<times> json) list"

text \<open>\<open>d[k]\<close> on a JSON object, as a lookup that may miss, and its key list.\<close>

fun json_get :: "json \<Rightarrow> string \<Rightarrow> json option" where
  "json_get (JObj kvs) k = map_of kvs k"
| "json_get _ k = None"

fun json_keys :: "json \<Rightarrow> string list" where
  "json_keys (JObj kvs) = map fst kvs"
| "json_keys _ = []"

text \<open>
  Exceptions: FastAPI's \<open>HTTPException(status_code, detail)\<close>, and every other
  \<open>Exception\<close> with its message. \<open>str(e)\<close> of an HTTPException is
  \<open>"<status>: <detail>"\<close>.
\<close>

datatype exn = HTTPException int string | Exception string

fun str_exn :: "exn \<Rightarrow> string" where
  "str_exn (HTTPException c d) = str_int c @ '': '' @ d"
| "str_exn (Exception m) = m"

section \<open>Authentication service: \<open>user_service.py\<close>\<close>

subsection \<open>Data\<close>

text \<open>
  \<open>bcrypt\<close> is a library outside the repository. It is modelled as a perfect salted
  hash: a hash produced by \<open>bcrypt.hashpw\<close> remembers the salt and the password it was
  made from, and \<open>bcrypt.checkpw\<close> accepts exactly that password. Any other stored string
  makes \<open>checkpw\<close> raise, which \<open>_verify_password\<close> turns into \<open>False\<close>.
  The model covers passwords of at most 72 bytes: past that length \<open>bcrypt\<close> ignores
  the rest or refuses the password, depending on its version.
\<close>

datatype password_hash = Bcrypt string string | Malformed string

text \<open>
  A row of the \<open>UserModel\<close> table with the columns the service reads and writes. The
  column \<open>id\<close> is named \<open>uid\<close> here.
\<close>

record user_model =
  uid :: string
  username :: string
  email :: string
  first_name :: "string option"
  last_name :: "string option"
  display_name :: "string option"
  roles :: "string list"
  primary_role :: string
  is_active :: bool
  email_verified :: bool
  mfa_enabled :: bool
  pw_hash :: password_hash
  failed_login_attempts :: int
  locked_until :: "unix_time option"
  last_login :: "unix_time option"
  created_at :: unix_time
  updated_at :: "unix_time option"
  metadata :: "(string \<times> json) list"

text \<open>
  The dictionary \<open>user_data\<close> that \<open>get_user_by_id\<close> and \<open>get_user_by_username\<close> build
  from a row has the same keys; \<open>display_name\<close> falls back to the username when the
  column is empty. (The two timestamps are rendered with \<open>isoformat()\<close> in the source;
  they stay numbers here.)
\<close>

definition user_data_of :: "user_model \<Rightarrow> user_model" where
  "user_data_of m =
     m\<lparr>display_name :=
         Some (case display_name m of
                 None \<Rightarrow> username m
               | Some d \<Rightarrow> if d = [] then username m else d)\<rparr>"

record cache_entry =
  user :: user_model
  expires :: unix_time

record audit_log_model =
  audit_user_id :: "string option"
  event_type :: string
  audit_success :: bool
  audit_metadata :: "(string \<times> json) list"
  audit_created_at :: unix_time

record metrics =
  total_users :: int
  active_users :: int
  locked_users :: int
  failed_attempts_today :: int
  successful_logins_today :: int

text \<open>
  The state of a \<open>UserService\<close>: its two configuration values, the tables behind
  \<open>db_manager\<close> (the database is taken to be reachable: the only database errors
  modelled are those that depend on the data), the in-memory \<open>_user_cache\<close> and the
  \<open>metrics\<close> dictionary. \<open>lockout_duration\<close> is in seconds.
\<close>

record user_service =
  max_failed_attempts :: int
  lockout_duration :: int
  users :: "user_model list"
  audit_log :: "audit_log_model list"
  user_cache :: "string \<rightharpoonup> cache_entry"
  metrics :: metrics

definition cache_ttl :: int where
  "cache_ttl = 300"

text \<open>\<open>UserService.__init__\<close>: an empty cache and zeroed metrics over the given tables.\<close>

definition init_user_service ::
  "int \<Rightarrow> int \<Rightarrow> user_model list \<Rightarrow> audit_log_model list \<Rightarrow> user_service" where
  "init_user_service max_attempts lockout_minutes table audit =
     \<lparr>max_failed_attempts = max_attempts,
      lockout_duration = 60 * lockout_minutes,
      users = table,
      audit_log = audit,
      user_cache = Map.empty,
      metrics = \<lparr>total_users = 0, active_users = 0, locked_users = 0,
                 failed_attempts_today = 0, successful_logins_today = 0\<rparr>\<rparr>"

datatype db_error = MultipleResultsFound | IntegrityError

text \<open>SQLAlchemy's \<open>scalar_one_or_none()\<close>: no row, the row, or an error on several.\<close>

fun scalar_one_or_none :: "'a list \<Rightarrow> db_error + 'a option" where
  "scalar_one_or_none [] = Inr None"
| "scalar_one_or_none [r] = Inr (Some r)"
| "scalar_one_or_none (r # r' # rs) = Inl MultipleResultsFound"

text \<open>\<open>update(UserModel).where(UserModel.id == user_id).values(...)\<close>.\<close>

definition update_where_id ::
  "string \<Rightarrow> (user_model \<Rightarrow> user_model) \<Rightarrow> user_model list \<Rightarrow> user_model list" where
  "update_where_id user_id f table = map (\<lambda>r. if uid r = user_id then f r else r) table"

definition rowcount :: "string \<Rightarrow> user_model list \<Rightarrow> nat" where
  "rowcount user_id table = length (filter (\<lambda>r. uid r = user_id) table)"

subsection \<open>Helpers\<close>

definition log_auth_event ::
  "user_service \<Rightarrow> string option \<Rightarrow> string \<Rightarrow> bool \<Rightarrow> (string \<times> json) list \<Rightarrow> unix_time
     \<Rightarrow> user_service" where
  "log_auth_event s user_id ev ok md now =
     s\<lparr>audit_log := audit_log s @
         [\<lparr>audit_user_id = user_id, event_type = ev, audit_success = ok,
           audit_metadata = md, audit_created_at = now\<rparr>]\<rparr>"

text \<open>
  \<open>_invalidate_user_cache\<close>: every key that starts with \<open>user_id:<id>\<close> or ends with
  \<open>:<id>\<close> is deleted.
\<close>

definition invalidate_user_cache :: "user_service \<Rightarrow> string \<Rightarrow> user_service" where
  "invalidate_user_cache s user_id =
     s\<lparr>user_cache :=
         (\<lambda>key. if startswith key (''user_id:'' @ user_id) \<or> endswith key ('':'' @ user_id)
                then None else user_cache s key)\<rparr>"

definition verify_password_hash :: "string \<Rightarrow> password_hash \<Rightarrow> bool" where
  "verify_password_hash password h =
     (case h of Bcrypt salt p \<Rightarrow> p = password | Malformed x \<Rightarrow> False)"

text \<open>\<open>_hash_password\<close>; the salt is what \<open>bcrypt.gensalt()\<close> returned.\<close>

definition hash_password :: "string \<Rightarrow> string \<Rightarrow> password_hash" where
  "hash_password password salt = Bcrypt salt password"

subsection \<open>Lookups through the cache\<close>

definition get_user_by_id ::
  "user_service \<Rightarrow> string \<Rightarrow> unix_time \<Rightarrow> user_model option \<times> user_service" where
  "get_user_by_id s user_id now =
     (let cache_key = ''user_id:'' @ user_id;
          from_db =
            (case scalar_one_or_none (filter (\<lambda>r. uid r = user_id) (users s)) of
               Inl e \<Rightarrow> (None, s)
             | Inr None \<Rightarrow> (None, s)
             | Inr (Some m) \<Rightarrow>
                 (Some (user_data_of m),
                  s\<lparr>user_cache := (user_cache s)
                      (cache_key \<mapsto> \<lparr>user = user_data_of m, expires = now + cache_ttl\<rparr>)\<rparr>))
      in case user_cache s cache_key of
           None \<Rightarrow> from_db
         | Some cached \<Rightarrow> if expires cached > now then (Some (user cached), s) else from_db)"

definition get_user_by_username ::
  "user_service \<Rightarrow> string \<Rightarrow> unix_time \<Rightarrow> user_model option \<times> user_service" where
  "get_user_by_username s name now =
     (let cache_key = ''username:'' @ name;
          from_db =
            (case scalar_one_or_none (filter (\<lambda>r. username r = name) (users s)) of
               Inl e \<Rightarrow> (None, s)
             | Inr None \<Rightarrow> (None, s)
             | Inr (Some m) \<Rightarrow>
                 (Some (user_data_of m),
                  s\<lparr>user_cache := (user_cache s)
                      (cache_key \<mapsto> \<lparr>user = user_data_of m, expires = now + cache_ttl\<rparr>)\<rparr>))
      in case user_cache s cache_key of
           None \<Rightarrow> from_db
         | Some cached \<Rightarrow> if expires cached > now then (Some (user cached), s) else from_db)"

subsection \<open>Security bookkeeping\<close>

text \<open>
  \<open>_handle_failed_login\<close> counts from the dictionary it is handed, locks at
  \<open>max_failed_attempts\<close>, writes the row and invalidates the cache. The end of the
  lock, \<open>now + lockout_duration\<close>, is taken to lie within the range of \<open>datetime\<close>
  (beyond it the addition raises, and the method logs the error and writes nothing).
\<close>

definition handle_failed_login :: "user_service \<Rightarrow> user_model \<Rightarrow> unix_time \<Rightarrow> user_service" where
  "handle_failed_login s u now =
     (let user_id = uid u;
          failed_attempts = failed_login_attempts u + 1;
          lock = (if failed_attempts \<ge> max_failed_attempts s
                  then Some (now + lockout_duration s) else None);
          s1 = s\<lparr>users := update_where_id user_id
                  (\<lambda>r. r\<lparr>failed_login_attempts := failed_attempts,
                          locked_until := lock,
                          updated_at := Some now\<rparr>) (users s)\<rparr>;
          s2 = invalidate_user_cache s1 user_id;
          m = metrics s2;
          m1 = m\<lparr>failed_attempts_today := failed_attempts_today m + 1\<rparr>;
          m2 = (case lock of None \<Rightarrow> m1 | Some t \<Rightarrow> m1\<lparr>locked_users := locked_users m1 + 1\<rparr>)
      in s2\<lparr>metrics := m2\<rparr>)"

definition reset_failed_attempts :: "user_service \<Rightarrow> string \<Rightarrow> unix_time \<Rightarrow> user_service" where
  "reset_failed_attempts s user_id now =
     invalidate_user_cache
       (s\<lparr>users := update_where_id user_id
            (\<lambda>r. r\<lparr>failed_login_attempts := 0, locked_until := None, updated_at := Some now\<rparr>)
            (users s)\<rparr>)
       user_id"

definition update_last_login :: "user_service \<Rightarrow> string \<Rightarrow> unix_time \<Rightarrow> user_service" where
  "update_last_login s user_id now =
     invalidate_user_cache
       (s\<lparr>users := update_where_id user_id
            (\<lambda>r. r\<lparr>last_login := Some now, updated_at := Some now\<rparr>) (users s)\<rparr>)
       user_id"

subsection \<open>Authentication\<close>

text \<open>
  \<open>authenticate_user\<close> returns the user dictionary or \<open>None\<close>; the reason of a refusal
  is only written to the audit log. One call reads the clock as the single instant
  \<open>now\<close>.
\<close>

definition authenticate_user ::
  "user_service \<Rightarrow> string \<Rightarrow> string \<Rightarrow> unix_time \<Rightarrow> user_model option \<times> user_service" where
  "authenticate_user s name password now =
     (case get_user_by_username s name now of
        (None, s1) \<Rightarrow>
          (None, log_auth_event s1 None ''login_failed'' False
                   [(''reason'', JStr ''user_not_found''), (''username'', JStr name)] now)
      | (Some u, s1) \<Rightarrow>
          if \<not> is_active u then
            (None, log_auth_event s1 (Some (uid u)) ''login_failed'' False
                     [(''reason'', JStr ''account_inactive'')] now)
          else if (case locked_until u of None \<Rightarrow> False | Some t \<Rightarrow> t > now) then
            (None, log_auth_event s1 (Some (uid u)) ''login_failed'' False
                     [(''reason'', JStr ''account_locked'')] now)
          else if \<not> verify_password_hash password (pw_hash u) then
            (None, log_auth_event (handle_failed_login s1 u now) (Some (uid u))
                     ''login_failed'' False [(''reason'', JStr ''invalid_password'')] now)
          else
            (let s2 = reset_failed_attempts s1 (uid u) now;
                 s3 = update_last_login s2 (uid u) now;
                 s4 = log_auth_event s3 (Some (uid u)) ''login_success'' True [] now;
                 m = metrics s4
             in (Some u, s4\<lparr>metrics := m\<lparr>successful_logins_today :=
                                              successful_logins_today m + 1\<rparr>\<rparr>)))"

text \<open>The reason recorded by the last audit event, if it has one.\<close>

definition last_reason :: "user_service \<Rightarrow> json option" where
  "last_reason s =
     (if audit_log s = [] then None else map_of (audit_metadata (last (audit_log s))) ''reason'')"

definition verify_password ::
  "user_service \<Rightarrow> string \<Rightarrow> string \<Rightarrow> unix_time \<Rightarrow> bool \<times> user_service" where
  "verify_password s user_id password now =
     (case get_user_by_id s user_id now of
        (None, s1) \<Rightarrow> (False, s1)
      | (Some u, s1) \<Rightarrow> (verify_password_hash password (pw_hash u), s1))"

subsection \<open>Creating, updating and deleting users\<close>

text \<open>
  The argument dictionary of \<open>create_user\<close>: the three required keys may be missing,
  the others have defaults.
\<close>

record new_user_data =
  nu_username :: "string option"
  nu_email :: "string option"
  nu_password :: "string option"
  nu_first_name :: "string option"
  nu_last_name :: "string option"
  nu_display_name :: "string option"
  nu_roles :: "string list option"
  nu_primary_role :: "string option"
  nu_is_active :: "bool option"
  nu_email_verified :: "bool option"
  nu_mfa_enabled :: "bool option"
  nu_metadata :: "(string \<times> json) list option"

text \<open>\<open>d.get(key, default)\<close>.\<close>

definition get_default :: "'a option \<Rightarrow> 'a \<Rightarrow> 'a" where
  "get_default v d = (case v of None \<Rightarrow> d | Some x \<Rightarrow> x)"

text \<open>
  Modelled from the spec: the declaration of \<open>UserModel\<close> is not among the sources. The
  spec makes \<open>id\<close> globally unique and \<open>username\<close> unique, so the table refuses a row
  whose id or username is already there (the commit raises, and \<open>create_user\<close> returns
  \<open>None\<close>); the columns the constructor call leaves out start at no failed attempts, no
  lock, no login and no update.
\<close>

definition insert_user :: "user_model \<Rightarrow> user_model list \<Rightarrow> db_error + user_model list" where
  "insert_user row table =
     (if list_ex (\<lambda>r. uid r = uid row \<or> username r = username row) table
      then Inl IntegrityError else Inr (table @ [row]))"

text \<open>
  \<open>create_user\<close>; \<open>new_id\<close> is what \<open>secrets.token_urlsafe(16)\<close> returned and \<open>salt\<close>
  what \<open>bcrypt.gensalt()\<close> returned.
\<close>

definition create_user ::
  "user_service \<Rightarrow> new_user_data \<Rightarrow> string \<Rightarrow> string \<Rightarrow> unix_time
     \<Rightarrow> string option \<times> user_service" where
  "create_user s d new_id salt now =
     (case (nu_username d, nu_email d, nu_password d) of
        (Some name, Some mail, Some password) \<Rightarrow>
          (case get_user_by_username s name now of
             (Some existing, s1) \<Rightarrow> (None, s1)
           | (None, s1) \<Rightarrow>
               (let row =
                      \<lparr>uid = new_id,
                       username = name,
                       email = mail,
                       first_name = nu_first_name d,
                       last_name = nu_last_name d,
                       display_name = nu_display_name d,
                       roles = get_default (nu_roles d) [''user''],
                       primary_role = get_default (nu_primary_role d) ''user'',
                       is_active = get_default (nu_is_active d) True,
                       email_verified = get_default (nu_email_verified d) False,
                       mfa_enabled = get_default (nu_mfa_enabled d) False,
                       pw_hash = hash_password password salt,
                       failed_login_attempts = 0,
                       locked_until = None,
                       last_login = None,
                       created_at = now,
                       updated_at = None,
                       metadata = get_default (nu_metadata d) []\<rparr>
                in case insert_user row (users s1) of
                     Inl e \<Rightarrow> (None, s1)
                   | Inr table \<Rightarrow>
                       (let s2 = s1\<lparr>users := table\<rparr>;
                            s3 = log_auth_event s2 (Some new_id) ''user_created'' True
                                   [(''username'', JStr name)] now;
                            m = metrics s3;
                            m1 = m\<lparr>total_users := total_users m + 1\<rparr>;
                            m2 = (if get_default (nu_is_active d) True
                                  then m1\<lparr>active_users := active_users m1 + 1\<rparr> else m1)
                        in (Some new_id, s3\<lparr>metrics := m2\<rparr>))))
      | _ \<Rightarrow> (None, s))"

text \<open>
  The argument dictionary of \<open>update_user\<close>, one entry per key; \<open>OtherKey\<close> stands for
  any key outside \<open>allowed_fields\<close>.
\<close>

datatype user_field =
    FirstName "string option"
  | LastName "string option"
  | DisplayName "string option"
  | Email string
  | Roles "string list"
  | PrimaryRole string
  | IsActive bool
  | EmailVerified bool
  | MfaEnabled bool
  | Metadata "(string \<times> json) list"
  | OtherKey string json

fun field_name :: "user_field \<Rightarrow> string" where
  "field_name (FirstName v) = ''first_name''"
| "field_name (LastName v) = ''last_name''"
| "field_name (DisplayName v) = ''display_name''"
| "field_name (Email v) = ''email''"
| "field_name (Roles v) = ''roles''"
| "field_name (PrimaryRole v) = ''primary_role''"
| "field_name (IsActive v) = ''is_active''"
| "field_name (EmailVerified v) = ''email_verified''"
| "field_name (MfaEnabled v) = ''mfa_enabled''"
| "field_name (Metadata v) = ''metadata''"
| "field_name (OtherKey k v) = k"

fun is_other_key :: "user_field \<Rightarrow> bool" where
  "is_other_key (OtherKey k v) = True"
| "is_other_key f = False"

fun apply_field :: "user_field \<Rightarrow> user_model \<Rightarrow> user_model" where
  "apply_field (FirstName v) r = r\<lparr>first_name := v\<rparr>"
| "apply_field (LastName v) r = r\<lparr>last_name := v\<rparr>"
| "apply_field (DisplayName v) r = r\<lparr>display_name := v\<rparr>"
| "apply_field (Email v) r = r\<lparr>email := v\<rparr>"
| "apply_field (Roles v) r = r\<lparr>roles := v\<rparr>"
| "apply_field (PrimaryRole v) r = r\<lparr>primary_role := v\<rparr>"
| "apply_field (IsActive v) r = r\<lparr>is_active := v\<rparr>"
| "apply_field (EmailVerified v) r = r\<lparr>email_verified := v\<rparr>"
| "apply_field (MfaEnabled v) r = r\<lparr>mfa_enabled := v\<rparr>"
| "apply_field (Metadata v) r = r\<lparr>metadata := v\<rparr>"
| "apply_field (OtherKey k v) r = r"

definition allowed_fields :: "string list" where
  "allowed_fields =
     [''first_name'', ''last_name'', ''display_name'', ''email'', ''roles'', ''primary_role'',
      ''is_active'', ''email_verified'', ''mfa_enabled'', ''metadata'']"

text \<open>The loop over \<open>allowed_fields\<close> that collects \<open>update_fields\<close>.\<close>

definition select_update_fields :: "user_field list \<Rightarrow> user_field list" where
  "select_update_fields update_data =
     concat (map (\<lambda>n. case find (\<lambda>f. \<not> is_other_key f \<and> field_name f = n) update_data of
                         None \<Rightarrow> [] | Some f \<Rightarrow> [f])
                 allowed_fields)"

definition update_user ::
  "user_service \<Rightarrow> string \<Rightarrow> user_field list \<Rightarrow> unix_time
     \<Rightarrow> user_model option \<times> user_service" where
  "update_user s user_id update_data now =
     (let update_fields = select_update_fields update_data
      in if update_fields = [] then (None, s)
         else case scalar_one_or_none (filter (\<lambda>r. uid r = user_id) (users s)) of
                Inl e \<Rightarrow> (None, s)
              | Inr None \<Rightarrow> (None, s)
              | Inr (Some updated) \<Rightarrow>
                  (let s1 = s\<lparr>users := update_where_id user_id
                                (\<lambda>r. (fold apply_field update_fields r)\<lparr>updated_at := Some now\<rparr>)
                                (users s)\<rparr>;
                       s2 = invalidate_user_cache s1 user_id;
                       s3 = log_auth_event s2 (Some user_id) ''user_updated'' True
                              [(''fields'',
                                JArr (map JStr (map field_name update_fields @ [''updated_at''])))]
                              now
                   in get_user_by_id s3 user_id now))"

definition change_password ::
  "user_service \<Rightarrow> string \<Rightarrow> string \<Rightarrow> string \<Rightarrow> unix_time \<Rightarrow> bool \<times> user_service" where
  "change_password s user_id new_password salt now =
     (let h = hash_password new_password salt
      in if rowcount user_id (users s) > 0 then
           (let s1 = s\<lparr>users := update_where_id user_id
                         (\<lambda>r. r\<lparr>pw_hash := h, updated_at := Some now\<rparr>) (users s)\<rparr>;
                s2 = invalidate_user_cache s1 user_id
            in (True, log_auth_event s2 (Some user_id) ''password_changed'' True [] now))
         else (False, s))"

definition delete_user :: "user_service \<Rightarrow> string \<Rightarrow> unix_time \<Rightarrow> bool \<times> user_service" where
  "delete_user s user_id now =
     (if rowcount user_id (users s) > 0 then
        (let s1 = s\<lparr>users := filter (\<lambda>r. uid r \<noteq> user_id) (users s)\<rparr>;
             s2 = invalidate_user_cache s1 user_id;
             s3 = log_auth_event s2 (Some user_id) ''user_deleted'' True [] now;
             m = metrics s3
         in (True, s3\<lparr>metrics := m\<lparr>total_users := total_users m - 1\<rparr>\<rparr>))
      else (False, s))"

subsection \<open>Bootstrap\<close>

definition admin_data :: new_user_data where
  "admin_data =
     \<lparr>nu_username = Some ''admin'',
      nu_email = Some ''admin@reusable-iam.local'',
      nu_password = Some ''admin123'',
      nu_first_name = Some ''System'',
      nu_last_name = Some ''Administrator'',
      nu_display_name = Some ''System Administrator'',
      nu_roles = Some [''admin'', ''user''],
      nu_primary_role = Some ''admin'',
      nu_is_active = Some True,
      nu_email_verified = Some True,
      nu_mfa_enabled = None,
      nu_metadata = None\<rparr>"

definition create_default_admin ::
  "user_service \<Rightarrow> string \<Rightarrow> string \<Rightarrow> unix_time \<Rightarrow> user_service" where
  "create_default_admin s new_id salt now =
     (case get_user_by_username s ''admin'' now of
        (Some admin_user, s1) \<Rightarrow> s1
      | (None, s1) \<Rightarrow> snd (create_user s1 admin_data new_id salt now))"

section \<open>HTTP responses\<close>

text \<open>
  What a FastAPI handler hands back: the value it returned (sent with status 200 unless
  the value carries its own status, as a forwarded upstream response does), or a
  \<open>JSONResponse(status_code, content)\<close>. A handler that raises is \<open>Inl\<close>.
\<close>

datatype 'r response = Returned 'r | JSONResponse int json

fun response_status :: "('r \<Rightarrow> int) \<Rightarrow> 'r response \<Rightarrow> int" where
  "response_status st (Returned r) = st r"
| "response_status st (JSONResponse c b) = c"

fun response_body :: "'r response \<Rightarrow> json option" where
  "response_body (Returned r) = None"
| "response_body (JSONResponse c b) = Some b"

text \<open>The status FastAPI sends with a value a handler of the service itself returned.\<close>

definition returned_status :: "'r \<Rightarrow> int" where
  "returned_status r = 200"

definition try_then :: "exn + 'a \<Rightarrow> ('a \<Rightarrow> exn + 'b) \<Rightarrow> exn + 'b" where
  "try_then r f = (case r of Inl e \<Rightarrow> Inl e | Inr v \<Rightarrow> f v)"

text \<open>
  The two shapes of \<open>except\<close> clauses the handlers use: \<open>except Exception\<close> alone
  (an HTTPException is an Exception too), and \<open>except HTTPException: raise\<close> before it.
\<close>

definition except_exception :: "string \<Rightarrow> exn + 'a \<Rightarrow> exn + 'a" where
  "except_exception detail r =
     (case r of Inl e \<Rightarrow> Inl (HTTPException 500 detail) | Inr v \<Rightarrow> Inr v)"

definition except_http_reraise :: "string \<Rightarrow> exn + 'a \<Rightarrow> exn + 'a" where
  "except_http_reraise detail r =
     (case r of
        Inl (HTTPException c d) \<Rightarrow> Inl (HTTPException c d)
      | Inl (Exception m) \<Rightarrow> Inl (HTTPException 500 detail)
      | Inr v \<Rightarrow> Inr v)"

section \<open>Authentication service: \<open>main.py\<close>\<close>

record login_request =
  login_username :: string
  login_password :: string

text \<open>
  \<open>authenticate_user\<close> returns a \<open>dict\<close>, and the handler reads \<open>user.is_active\<close> and
  \<open>user.is_locked\<close> from it as attributes. Attribute access on a \<open>dict\<close> raises
  \<open>AttributeError\<close> for every name that is not a method of \<open>dict\<close>.
\<close>

definition dict_getattr :: "user_model \<Rightarrow> string \<Rightarrow> exn + bool" where
  "dict_getattr d name =
     Inl (Exception (''AttributeError: dict object has no attribute '' @ name))"

text \<open>
  \<open>login\<close>. The statements after the two checks (tokens, session, \<open>update_last_login\<close>,
  the \<open>LoginResponse\<close>) use services that are not among the sources; they are the
  parameter \<open>rest\<close>.
\<close>

definition authn_login ::
  "(user_model \<Rightarrow> user_service \<Rightarrow> (exn + 'r) \<times> user_service) \<Rightarrow> user_service \<Rightarrow> login_request
     \<Rightarrow> unix_time \<Rightarrow> (exn + 'r) \<times> user_service" where
  "authn_login rest s request now =
     (case authenticate_user s (login_username request) (login_password request) now of
        (None, s1) \<Rightarrow> (Inl (HTTPException 401 ''Invalid credentials''), s1)
      | (Some u, s1) \<Rightarrow>
          (case dict_getattr u ''is_active'' of
             Inl e \<Rightarrow> (except_http_reraise ''Login failed'' (Inl e), s1)
           | Inr active \<Rightarrow>
               if \<not> active then (Inl (HTTPException 403 ''Account is inactive''), s1)
               else
                 (case dict_getattr u ''is_locked'' of
                    Inl e \<Rightarrow> (except_http_reraise ''Login failed'' (Inl e), s1)
                  | Inr locked \<Rightarrow>
                      if locked then (Inl (HTTPException 423 ''Account is locked''), s1)
                      else (case rest u s1 of
                              (r, s2) \<Rightarrow> (except_http_reraise ''Login failed'' r, s2)))))"

text \<open>
  The exception handlers of the authentication service; \<open>now_iso\<close> is
  \<open>datetime.utcnow().isoformat()\<close>.
\<close>

definition authn_http_exception_handler :: "int \<Rightarrow> string \<Rightarrow> string \<Rightarrow> 'r response" where
  "authn_http_exception_handler status_code detail now_iso =
     JSONResponse status_code
       (JObj [(''error'',
               JObj [(''code'', JNum status_code),
                     (''message'', JStr detail),
                     (''timestamp'', JStr now_iso)])])"

definition authn_general_exception_handler :: "string \<Rightarrow> 'r response" where
  "authn_general_exception_handler now_iso =
     JSONResponse 500
       (JObj [(''error'',
               JObj [(''code'', JNum 500),
                     (''message'', JStr ''Internal server error''),
                     (''timestamp'', JStr now_iso)])])"

definition authn_respond :: "string \<Rightarrow> exn + 'r \<Rightarrow> 'r response" where
  "authn_respond now_iso r =
     (case r of
        Inr v \<Rightarrow> Returned v
      | Inl (HTTPException c d) \<Rightarrow> authn_http_exception_handler c d now_iso
      | Inl (Exception m) \<Rightarrow> authn_general_exception_handler now_iso)"

text \<open>\<open>POST /auth/login\<close> as the client sees it: the response and the new state.\<close>

definition post_auth_login ::
  "(user_model \<Rightarrow> user_service \<Rightarrow> (exn + 'r) \<times> user_service) \<Rightarrow> user_service \<Rightarrow> login_request
     \<Rightarrow> unix_time \<Rightarrow> string \<Rightarrow> 'r response \<times> user_service" where
  "post_auth_login rest s request now now_iso =
     (case authn_login rest s request now of
        (r, s1) \<Rightarrow> (authn_respond now_iso r, s1))"

section \<open>Authorization service: \<open>main.py\<close>\<close>

datatype policy_effect = PERMIT | DENY | INDETERMINATE

record authorization_request =
  req_user_id :: string
  req_resource_id :: string
  req_action :: string
  req_context :: "(string \<times> json) list"
  req_request_id :: string

record authorization_decision =
  effect :: policy_effect
  reason :: string
  attributes_used :: "string list"
  evaluation_time_ms :: int
  cache_hit :: bool
  obligations :: "json list"
  advice :: "string list"
  timestamp :: string

record authorization_response =
  success :: bool
  decision :: authorization_decision
  request_id :: string

text \<open>
  \<open>authorize\<close> of the authorization service. The engine (\<open>authorization_engine.py\<close>) is
  not among the sources; \<open>engine\<close> is what its \<open>authorize\<close> does with the request: a
  result or an exception.
\<close>

definition authz_authorize ::
  "(authorization_request \<Rightarrow> exn + authorization_response) \<Rightarrow> authorization_request \<Rightarrow> string
     \<Rightarrow> exn + authorization_response" where
  "authz_authorize engine request now_iso =
     (case engine request of
        Inr result \<Rightarrow> Inr result
      | Inl e \<Rightarrow>
          Inr \<lparr>success = False,
               decision =
                 \<lparr>effect = DENY,
                  reason = ''Authorization error: '' @ str_exn e,
                  attributes_used = [],
                  evaluation_time_ms = 0,
                  cache_hit = False,
                  obligations = [],
                  advice = [''Check system logs for details''],
                  timestamp = now_iso\<rparr>,
               request_id = req_request_id request\<rparr>)"

definition authz_http_exception_handler :: "int \<Rightarrow> string \<Rightarrow> string \<Rightarrow> 'r response" where
  "authz_http_exception_handler status_code detail now_iso =
     JSONResponse status_code
       (JObj [(''error'',
               JObj [(''code'', JNum status_code),
                     (''message'', JStr detail),
                     (''timestamp'', JStr now_iso)])])"

definition authz_general_exception_handler :: "string \<Rightarrow> 'r response" where
  "authz_general_exception_handler now_iso =
     JSONResponse 500
       (JObj [(''error'',
               JObj [(''code'', JNum 500),
                     (''message'', JStr ''Internal server error''),
                     (''timestamp'', JStr now_iso)])])"

definition authz_respond :: "string \<Rightarrow> exn + 'r \<Rightarrow> 'r response" where
  "authz_respond now_iso r =
     (case r of
        Inr v \<Rightarrow> Returned v
      | Inl (HTTPException c d) \<Rightarrow> authz_http_exception_handler c d now_iso
      | Inl (Exception m) \<Rightarrow> authz_general_exception_handler now_iso)"

text \<open>\<open>POST /authorize\<close> as the client sees it.\<close>

definition post_authorize ::
  "(authorization_request \<Rightarrow> exn + authorization_response) \<Rightarrow> authorization_request \<Rightarrow> string
     \<Rightarrow> authorization_response response" where
  "post_authorize engine request now_iso =
     authz_respond now_iso (authz_authorize engine request now_iso)"

section \<open>API gateway: \<open>main.py\<close>\<close>

text \<open>
  The parts of a request the handlers read. \<open>headers\<close> and \<open>query_params\<close> are the
  dictionaries \<open>dict(request.headers)\<close> and \<open>dict(request.query_params)\<close> that the
  handlers pass on, with one value for each key.
\<close>

record request =
  http_method :: string
  url_path :: string
  headers :: "(string \<times> string) list"
  query_params :: "(string \<times> string) list"
  body :: string

text \<open>The keyword arguments of one \<open>forward_request\<close> call.\<close>

record forward_call =
  service_name :: string
  path :: string
  forward_method :: string
  forward_headers :: "(string \<times> string) list"
  forward_query_params :: "(string \<times> string) list option"
  forward_body :: "string option"

record auth_result =
  auth_success :: bool
  error_message :: string
  auth_user_id :: string

record authorization_check =
  check_user_id :: string
  check_resource :: string
  check_action :: string
  check_context :: "(string \<times> string) list"

text \<open>
  The gateway's collaborators (\<open>gateway_service.py\<close>, the two middlewares) are not among
  the sources. Each is a parameter: what the call does with its arguments, a result or
  an exception. \<open>check_authorization\<close> gives the \<open>success\<close> flag of its result.
\<close>

record 'r gateway_env =
  check_rate_limit :: "request \<Rightarrow> exn + unit"
  authenticate_request :: "request \<Rightarrow> exn + auth_result"
  check_authorization :: "authorization_check \<Rightarrow> exn + bool"
  forward_request :: "forward_call \<Rightarrow> exn + 'r"

definition forward ::
  "'r gateway_env \<Rightarrow> string \<Rightarrow> string \<Rightarrow> string \<Rightarrow> (string \<times> string) list
     \<Rightarrow> (string \<times> string) list option \<Rightarrow> string option \<Rightarrow> exn + 'r response" where
  "forward env service p m hs qs b =
     (case forward_request env
             \<lparr>service_name = service, path = p, forward_method = m, forward_headers = hs,
              forward_query_params = qs, forward_body = b\<rparr> of
        Inl e \<Rightarrow> Inl e
      | Inr r \<Rightarrow> Inr (Returned r))"

text \<open>The authentication check that opens the protected handlers.\<close>

definition require_authenticated :: "'r gateway_env \<Rightarrow> request \<Rightarrow> exn + auth_result" where
  "require_authenticated env req =
     try_then (authenticate_request env req)
       (\<lambda>a. if \<not> auth_success a then Inl (HTTPException 401 (error_message a)) else Inr a)"

text \<open>The admin check of the policy and audit handlers.\<close>

definition require_admin ::
  "'r gateway_env \<Rightarrow> auth_result \<Rightarrow> string \<Rightarrow> string \<Rightarrow> string \<Rightarrow> exn + unit" where
  "require_admin env a resource action p =
     try_then (check_authorization env
                 \<lparr>check_user_id = auth_user_id a, check_resource = resource,
                  check_action = action, check_context = [(''path'', p)]\<rparr>)
       (\<lambda>ok. if \<not> ok then Inl (HTTPException 403 ''Admin access required'') else Inr ())"

subsection \<open>Routes to the authentication service\<close>

definition gateway_login :: "'r gateway_env \<Rightarrow> request \<Rightarrow> exn + 'r response" where
  "gateway_login env req =
     except_exception ''Authentication service unavailable''
       (forward env ''authentication'' ''/auth/login'' ''POST'' (headers req) None
          (Some (body req)))"

definition gateway_logout :: "'r gateway_env \<Rightarrow> request \<Rightarrow> exn + 'r response" where
  "gateway_logout env req =
     except_http_reraise ''Authentication service unavailable''
       (try_then (require_authenticated env req)
          (\<lambda>a. forward env ''authentication'' ''/auth/logout'' ''POST'' (headers req) None None))"

definition gateway_refresh_token :: "'r gateway_env \<Rightarrow> request \<Rightarrow> exn + 'r response" where
  "gateway_refresh_token env req =
     except_exception ''Authentication service unavailable''
       (forward env ''authentication'' ''/auth/refresh'' ''POST'' (headers req) None
          (Some (body req)))"

definition gateway_validate_token :: "'r gateway_env \<Rightarrow> request \<Rightarrow> exn + 'r response" where
  "gateway_validate_token env req =
     except_exception ''Authentication service unavailable''
       (forward env ''authentication'' ''/auth/validate'' ''GET'' (headers req) None None)"

definition gateway_get_current_user :: "'r gateway_env \<Rightarrow> request \<Rightarrow> exn + 'r response" where
  "gateway_get_current_user env req =
     except_http_reraise ''Authentication service unavailable''
       (try_then (require_authenticated env req)
          (\<lambda>a. forward env ''authentication'' ''/users/me'' ''GET'' (headers req) None None))"

definition gateway_update_current_user :: "'r gateway_env \<Rightarrow> request \<Rightarrow> exn + 'r response" where
  "gateway_update_current_user env req =
     except_http_reraise ''Authentication service unavailable''
       (try_then (require_authenticated env req)
          (\<lambda>a. forward env ''authentication'' ''/users/me'' ''PUT'' (headers req) None
                  (Some (body req))))"

subsection \<open>Routes to the authorization service\<close>

text \<open>The dictionary \<open>authorize\<close> returns when forwarding fails; \<open>now\<close> is \<open>time.time()\<close>.\<close>

definition fallback_body :: "unix_time \<Rightarrow> json" where
  "fallback_body now =
     JObj [(''success'', JBool True),
           (''decision'',
            JObj [(''effect'', JStr ''permit''),
                  (''reason'',
                   JStr ''Authorization service unavailable - using development fallback''),
                  (''attributes_used'', JArr [JStr ''fallback'']),
                  (''evaluation_time_ms'', JNum 0),
                  (''cache_hit'', JBool False),
                  (''obligations'', JArr []),
                  (''advice'',
                   JArr [JStr ''Using development mode fallback due to service unavailable'']),
                  (''timestamp'', JNum now)]),
           (''request_id'', JStr (''gateway_fallback_'' @ str_int now))]"

definition gateway_authorize :: "'r gateway_env \<Rightarrow> request \<Rightarrow> unix_time \<Rightarrow> exn + 'r response" where
  "gateway_authorize env req now =
     (case try_then (check_rate_limit env req)
             (\<lambda>u. forward env ''authorization'' ''/authorize'' ''POST'' (headers req) None
                     (Some (body req))) of
        Inr response \<Rightarrow> Inr response
      | Inl (HTTPException c d) \<Rightarrow> Inl (HTTPException c d)
      | Inl (Exception m) \<Rightarrow> Inr (JSONResponse 200 (fallback_body now)))"

definition gateway_authorize_bulk :: "'r gateway_env \<Rightarrow> request \<Rightarrow> exn + 'r response" where
  "gateway_authorize_bulk env req =
     except_http_reraise ''Authorization service unavailable''
       (try_then (check_rate_limit env req)
          (\<lambda>u. forward env ''authorization'' ''/authorize/bulk'' ''POST'' (headers req) None
                  (Some (body req))))"

definition gateway_authorize_batch_optimized ::
  "'r gateway_env \<Rightarrow> request \<Rightarrow> exn + 'r response" where
  "gateway_authorize_batch_optimized env req =
     except_http_reraise ''Authorization service unavailable''
       (try_then (check_rate_limit env req)
          (\<lambda>u. forward env ''authorization'' ''/authorize/batch-optimized'' ''POST''
                  (headers req) None (Some (body req))))"

definition gateway_list_policies :: "'r gateway_env \<Rightarrow> request \<Rightarrow> exn + 'r response" where
  "gateway_list_policies env req =
     except_http_reraise ''Authorization service unavailable''
       (try_then (require_authenticated env req)
          (\<lambda>a. try_then (require_admin env a ''policies'' ''read'' ''/api/v1/authz/policies'')
             (\<lambda>u. forward env ''authorization'' ''/policies'' ''GET'' (headers req)
                     (Some (query_params req)) None)))"

definition gateway_create_policy :: "'r gateway_env \<Rightarrow> request \<Rightarrow> exn + 'r response" where
  "gateway_create_policy env req =
     except_http_reraise ''Authorization service unavailable''
       (try_then (require_authenticated env req)
          (\<lambda>a. try_then (require_admin env a ''policies'' ''create'' ''/api/v1/authz/policies'')
             (\<lambda>u. forward env ''authorization'' ''/policies'' ''POST'' (headers req) None
                     (Some (body req)))))"

definition gateway_query_audit_log :: "'r gateway_env \<Rightarrow> request \<Rightarrow> exn + 'r response" where
  "gateway_query_audit_log env req =
     except_http_reraise ''Authorization service unavailable''
       (try_then (require_authenticated env req)
          (\<lambda>a. try_then
                  (require_admin env a ''audit'' ''read'' ''/api/v1/authz/audit/decisions'')
             (\<lambda>u. forward env ''authorization'' ''/audit/decisions'' ''GET'' (headers req)
                     (Some (query_params req)) None)))"

definition gateway_get_authorization_status ::
  "'r gateway_env \<Rightarrow> request \<Rightarrow> exn + 'r response" where
  "gateway_get_authorization_status env req =
     except_exception ''Authorization service unavailable''
       (forward env ''authorization'' ''/status'' ''GET'' (headers req) None None)"

subsection \<open>The generic proxy route\<close>

text \<open>The service and the service path \<open>proxy_request\<close> picks for \<open>/api/v1/{path}\<close>.\<close>

definition proxy_target :: "string \<Rightarrow> (string \<times> string) option" where
  "proxy_target p =
     (if startswith p ''auth/'' \<or> startswith p ''users/'' then Some (''authentication'', p)
      else if startswith p ''authz/'' \<or> startswith p ''policies/''
      then Some (''authorization'', replace_first ''authz/'' [] p)
      else None)"

definition gateway_proxy_request ::
  "'r gateway_env \<Rightarrow> request \<Rightarrow> string \<Rightarrow> exn + 'r response" where
  "gateway_proxy_request env req p =
     (case proxy_target p of
        None \<Rightarrow> Inl (HTTPException 404 ''Service not found'')
      | Some (service, service_path) \<Rightarrow>
          except_http_reraise ''Service unavailable''
            (forward env service (''/'' @ service_path) (http_method req) (headers req)
               (Some (query_params req))
               (if http_method req \<in> set [''POST'', ''PUT'', ''PATCH''] then Some (body req)
                else None)))"

subsection \<open>Exception handlers and the route table\<close>

definition gateway_http_exception_handler ::
  "request \<Rightarrow> int \<Rightarrow> string \<Rightarrow> unix_time \<Rightarrow> 'r response" where
  "gateway_http_exception_handler req status_code detail now =
     JSONResponse status_code
       (JObj [(''error'',
               JObj [(''code'', JNum status_code),
                     (''message'', JStr detail),
                     (''path'', JStr (url_path req)),
                     (''timestamp'', JNum now)])])"

definition gateway_general_exception_handler :: "request \<Rightarrow> unix_time \<Rightarrow> 'r response" where
  "gateway_general_exception_handler req now =
     JSONResponse 500
       (JObj [(''error'',
               JObj [(''code'', JNum 500),
                     (''message'', JStr ''Gateway internal error''),
                     (''path'', JStr (url_path req)),
                     (''timestamp'', JNum now)])])"

definition gateway_respond :: "request \<Rightarrow> unix_time \<Rightarrow> exn + 'r response \<Rightarrow> 'r response" where
  "gateway_respond req now r =
     (case r of
        Inr v \<Rightarrow> v
      | Inl (HTTPException c d) \<Rightarrow> gateway_http_exception_handler req c d now
      | Inl (Exception m) \<Rightarrow> gateway_general_exception_handler req now)"

text \<open>
  The \<open>/api/v1\<close> routes the gateway registers, one constructor per decorated handler;
  \<open>ProxyRequest p\<close> is the generic route with its path parameter.
\<close>

datatype route =
    Login
  | Logout
  | RefreshToken
  | ValidateToken
  | GetCurrentUser
  | UpdateCurrentUser
  | Authorize
  | AuthorizeBulk
  | AuthorizeBatchOptimized
  | ListPolicies
  | CreatePolicy
  | QueryAuditLog
  | GetAuthorizationStatus
  | ProxyRequest string

fun gateway_handler :: "'r gateway_env \<Rightarrow> route \<Rightarrow> request \<Rightarrow> unix_time \<Rightarrow> exn + 'r response" where
  "gateway_handler env Login req now = gateway_login env req"
| "gateway_handler env Logout req now = gateway_logout env req"
| "gateway_handler env RefreshToken req now = gateway_refresh_token env req"
| "gateway_handler env ValidateToken req now = gateway_validate_token env req"
| "gateway_handler env GetCurrentUser req now = gateway_get_current_user env req"
| "gateway_handler env UpdateCurrentUser req now = gateway_update_current_user env req"
| "gateway_handler env Authorize req now = gateway_authorize env req now"
| "gateway_handler env AuthorizeBulk req now = gateway_authorize_bulk env req"
| "gateway_handler env AuthorizeBatchOptimized req now =
     gateway_authorize_batch_optimized env req"
| "gateway_handler env ListPolicies req now = gateway_list_policies env req"
| "gateway_handler env CreatePolicy req now = gateway_create_policy env req"
| "gateway_handler env QueryAuditLog req now = gateway_query_audit_log env req"
| "gateway_handler env GetAuthorizationStatus req now =
     gateway_get_authorization_status env req"
| "gateway_handler env (ProxyRequest p) req now = gateway_proxy_request env req p"

definition gateway :: "'r gateway_env \<Rightarrow> route \<Rightarrow> request \<Rightarrow> unix_time \<Rightarrow> 'r response" where
  "gateway env r req now = gateway_respond req now (gateway_handler env r req now)"

section \<open>Sample data\<close>

text \<open>A user \<open>alice\<close> with id \<open>u1\<close>, used to run the services on concrete inputs.\<close>

definition alice :: user_model where
  "alice =
     \<lparr>uid = ''u1'', username = ''alice'', email = ''alice@example.org'',
      first_name = None, last_name = None, display_name = None,
      roles = [''user''], primary_role = ''user'', is_active = True,
      email_verified = False, mfa_enabled = False,
      pw_hash = Bcrypt ''salt0'' ''correct horse'',
      failed_login_attempts = 0, locked_until = None, last_login = None,
      created_at = 0, updated_at = None, metadata = []\<rparr>"

text \<open>Reading an error body: the object under \<open>"error"\<close>, its keys and its fields.\<close>

definition error_object :: "'r response \<Rightarrow> json option" where
  "error_object resp =
     (case response_body resp of None \<Rightarrow> None | Some b \<Rightarrow> json_get b ''error'')"

definition error_field :: "'r response \<Rightarrow> string \<Rightarrow> json option" where
  "error_field resp k = (case error_object resp of None \<Rightarrow> None | Some e \<Rightarrow> json_get e k)"

definition error_keys :: "'r response \<Rightarrow> string list" where
  "error_keys resp = (case error_object resp of None \<Rightarrow> [] | Some e \<Rightarrow> json_keys e)"

text \<open>A field of the \<open>"decision"\<close> object of an authorization body.\<close>

definition decision_field :: "json \<Rightarrow> string \<Rightarrow> json option" where
  "decision_field b k =
     (case json_get b ''decision'' of None \<Rightarrow> None | Some d \<Rightarrow> json_get d k)"

text \<open>
  A gateway whose upstreams are unreachable (every \<open>forward_request\<close> raises a connection
  error) while rate limiting and the two middleware checks pass; and a gateway whose
  upstream answers with the call it received, which shows what is forwarded.
\<close>

definition upstream_down :: "unit gateway_env" where
  "upstream_down =
     \<lparr>check_rate_limit = (\<lambda>req. Inr ()),
      authenticate_request =
        (\<lambda>req. Inr \<lparr>auth_success = True, error_message = [], auth_user_id = ''u0''\<rparr>),
      check_authorization = (\<lambda>c. Inr True),
      forward_request = (\<lambda>c. Inl (Exception ''All connection attempts failed''))\<rparr>"

definition upstream_echo :: "forward_call gateway_env" where
  "upstream_echo =
     \<lparr>check_rate_limit = (\<lambda>req. Inr ()),
      authenticate_request =
        (\<lambda>req. Inr \<lparr>auth_success = True, error_message = [], auth_user_id = ''u0''\<rparr>),
      check_authorization = (\<lambda>c. Inr True),
      forward_request = (\<lambda>c. Inr c)\<rparr>"

definition post_request :: "string \<Rightarrow> request" where
  "post_request p =
     \<lparr>http_method = ''POST'', url_path = p, headers = [], query_params = [], body = ''{}''\<rparr>"

definition get_request :: "string \<Rightarrow> request" where
  "get_request p =
     \<lparr>http_method = ''GET'', url_path = p, headers = [], query_params = [], body = []\<rparr>"

text \<open>The row \<open>create_user\<close> builds from \<open>admin_data\<close>.\<close>

definition default_admin_row :: "string \<Rightarrow> string \<Rightarrow> unix_time \<Rightarrow> user_model" where
  "default_admin_row new_id salt now =
     \<lparr>uid = new_id, username = ''admin'', email = ''admin@reusable-iam.local'',
      first_name = Some ''System'', last_name = Some ''Administrator'',
      display_name = Some ''System Administrator'',
      roles = [''admin'', ''user''], primary_role = ''admin'', is_active = True,
      email_verified = True, mfa_enabled = False,
      pw_hash = Bcrypt salt ''admin123'',
      failed_login_attempts = 0, locked_until = None, last_login = None,
      created_at = now, updated_at = None, metadata = []\<rparr>"

text \<open>
  A service in which \<open>alice\<close> has just been read both by name and by id (at time 1000),
  so that both of her cache entries are live.
\<close>

definition warm_service :: user_service where
  "warm_service =
     snd (get_user_by_id
            (snd (get_user_by_username (init_user_service 5 30 [alice] []) ''alice'' 1000))
            ''u1'' 1000)"

text \<open>
  A run of \<open>POST /auth/login\<close> requests, each with its clock reading: the status codes
  in order and the state at the end.
\<close>

fun post_auth_logins ::
  "(user_model \<Rightarrow> user_service \<Rightarrow> (exn + 'r) \<times> user_service) \<Rightarrow> user_service
     \<Rightarrow> (login_request \<times> unix_time \<times> string) list \<Rightarrow> int list \<times> user_service" where
  "post_auth_logins rest s [] = ([], s)"
| "post_auth_logins rest s ((request, now, now_iso) # later) =
     (case post_auth_login rest s request now now_iso of
        (resp, s1) \<Rightarrow>
          (case post_auth_logins rest s1 later of
             (codes, s2) \<Rightarrow> (response_status returned_status resp # codes, s2)))"

definition login_as :: "string \<Rightarrow> string \<Rightarrow> login_request" where
  "login_as name password = \<lparr>login_username = name, login_password = password\<rparr>"

definition issue_nothing :: "user_model \<Rightarrow> user_service \<Rightarrow> (exn + unit) \<times> user_service" where
  "issue_nothing u s = (Inr (), s)"

text \<open>An engine that fails on every request, and a request to try it on.\<close>

definition engine_unavailable :: "authorization_request \<Rightarrow> exn + authorization_response" where
  "engine_unavailable request = Inl (HTTPException 503 ''policy store unavailable'')"

definition read_doc1 :: authorization_request where
  "read_doc1 =
     \<lparr>req_user_id = ''u1'', req_resource_id = ''doc1'', req_action = ''read'',
      req_context = [], req_request_id = ''r-1''\<rparr>"

section \<open>Properties of the user service\<close>

lemmas lookup_defs = get_user_by_username_def get_user_by_id_def user_data_of_def cache_ttl_def
  init_user_service_def startswith_def endswith_def

lemmas auth_defs = authenticate_user_def handle_failed_login_def reset_failed_attempts_def
  update_last_login_def invalidate_user_cache_def log_auth_event_def verify_password_hash_def
  update_where_id_def

subsection \<open>What each step does to the user table\<close>

lemma users_get_user_by_username:
  "users (snd (get_user_by_username s name now)) = users s"
  by (simp add: get_user_by_username_def Let_def split: option.splits sum.splits)

lemma users_get_user_by_id:
  "users (snd (get_user_by_id s i now)) = users s"
  by (simp add: get_user_by_id_def Let_def split: option.splits sum.splits)

lemma users_invalidate: "users (invalidate_user_cache s i) = users s"
  by (simp add: invalidate_user_cache_def)

lemma users_log: "users (log_auth_event s i e b m n) = users s"
  by (simp add: log_auth_event_def)

lemma users_reset_then_login:
  "users (update_last_login (reset_failed_attempts s i now) i now) =
     map (\<lambda>r. if uid r = i
               then r\<lparr>failed_login_attempts := 0, locked_until := None,
                      last_login := Some now, updated_at := Some now\<rparr>
               else r) (users s)"
  by (simp add: update_last_login_def reset_failed_attempts_def users_invalidate
        update_where_id_def)

subsection \<open>The success path of \<open>authenticate_user\<close>\<close>

text \<open>
  C8. When \<open>authenticate_user\<close> returns a user, the user table afterwards is the table
  before with, in every row of that user's id, \<open>failed_login_attempts\<close> set to 0,
  \<open>locked_until\<close> cleared, \<open>last_login\<close> set to the time of the call and \<open>updated_at\<close>
  set; every other column of that row and every other row is as it was. The count that
  stood before the call plays no part, so this covers a count of
  \<open>max_failed_attempts - 1\<close>.
\<close>

theorem authenticate_success_resets:
  assumes "authenticate_user s name password now = (Some u, s')"
  shows "users s' =
           map (\<lambda>r. if uid r = uid u
                     then r\<lparr>failed_login_attempts := 0, locked_until := None,
                            last_login := Some now, updated_at := Some now\<rparr>
                     else r) (users s)"
proof -
  obtain v s1 where g: "get_user_by_username s name now = (v, s1)"
    by (cases "get_user_by_username s name now")
  have u1: "users s1 = users s"
    using users_get_user_by_username [of s name now] g by simp
  from assms g have "v = Some u"
    by (auto simp: authenticate_user_def Let_def split: option.splits if_splits)
  with assms g have
    "s' = (let s4 = log_auth_event
                      (update_last_login (reset_failed_attempts s1 (uid u) now) (uid u) now)
                      (Some (uid u)) ''login_success'' True [] now
           in s4\<lparr>metrics := (metrics s4)\<lparr>successful_logins_today :=
                                            successful_logins_today (metrics s4) + 1\<rparr>\<rparr>)"
    by (auto simp: authenticate_user_def Let_def split: option.splits if_splits)
  then show ?thesis
    by (simp add: Let_def users_log users_reset_then_login u1)
qed

text \<open>
  The theorem at a user one failure short of the lock (4 of 5): the right password
  authenticates and the row is reset.
\<close>

theorem authenticate_success_resets_witness:
  "fst (authenticate_user (init_user_service 5 30 [alice\<lparr>failed_login_attempts := 4\<rparr>] [])
          ''alice'' ''correct horse'' 1000) \<noteq> None \<and>
   users (snd (authenticate_user
                 (init_user_service 5 30 [alice\<lparr>failed_login_attempts := 4\<rparr>] [])
                 ''alice'' ''correct horse'' 1000)) =
     [alice\<lparr>failed_login_attempts := 0, locked_until := None,
            last_login := Some 1000, updated_at := Some 1000\<rparr>]"
proof -
  let ?s = "init_user_service 5 30 [alice\<lparr>failed_login_attempts := 4\<rparr>] []"
  let ?r = "authenticate_user ?s ''alice'' ''correct horse'' 1000"
  have a: "fst ?r = Some (user_data_of (alice\<lparr>failed_login_attempts := 4\<rparr>))"
    by (simp add: lookup_defs auth_defs alice_def Let_def)
  then have h: "?r = (Some (user_data_of (alice\<lparr>failed_login_attempts := 4\<rparr>)), snd ?r)"
    by (simp add: prod_eq_iff)
  have "users (snd ?r) = [alice\<lparr>failed_login_attempts := 0, locked_until := None,
            last_login := Some 1000, updated_at := Some 1000\<rparr>]"
    using authenticate_success_resets [OF h]
    by (simp add: init_user_service_def user_data_of_def alice_def)
  with a show ?thesis by simp
qed

subsection \<open>Bootstrap\<close>

lemma get_user_by_username_cases:
  obtains s1 where "get_user_by_username s name now = (None, s1)" "users s1 = users s"
  | u s1 where "get_user_by_username s name now = (Some u, s1)" "users s1 = users s"
proof (cases "get_user_by_username s name now")
  case (Pair v s1)
  with users_get_user_by_username [of s name now] have "users s1 = users s" by simp
  with Pair that show ?thesis by (cases v) auto
qed

lemma create_user_existing_name:
  assumes "list_ex (\<lambda>r. username r = ''admin'') (users s)"
  shows "users (snd (create_user s admin_data new_id salt now)) = users s"
proof (cases rule: get_user_by_username_cases [of s "''admin''" now])
  case (1 s1)
  from assms have "list_ex (\<lambda>r. uid r = new_id \<or> username r = ''admin'') (users s)"
    by (auto simp: list_ex_iff)
  with 1 show ?thesis
    by (simp add: create_user_def admin_data_def insert_user_def Let_def)
next
  case (2 u s1)
  then show ?thesis by (simp add: create_user_def admin_data_def)
qed

lemma bootstrap_existing:
  assumes "list_ex (\<lambda>r. username r = ''admin'') (users s)"
  shows "users (create_default_admin s new_id salt now) = users s"
proof (cases rule: get_user_by_username_cases [of s "''admin''" now])
  case (1 s1)
  with assms create_user_existing_name [of s1 new_id salt now] show ?thesis
    by (simp add: create_default_admin_def)
next
  case (2 u s1)
  then show ?thesis by (simp add: create_default_admin_def)
qed

lemma get_user_by_username_absent:
  assumes "\<not> list_ex (\<lambda>r. username r = name) (users s)"
    and "user_cache s (''username:'' @ name) = None"
  shows "get_user_by_username s name now = (None, s)"
proof -
  from assms(1) have "filter (\<lambda>r. username r = name) (users s) = []"
    by (auto simp: list_ex_iff filter_empty_conv)
  with assms(2) show ?thesis by (simp add: get_user_by_username_def Let_def)
qed

lemma bootstrap_creates:
  assumes "\<not> list_ex (\<lambda>r. username r = ''admin'') (users s)"
    and "user_cache s ''username:admin'' = None"
    and "\<not> list_ex (\<lambda>r. uid r = new_id) (users s)"
  shows "users (create_default_admin s new_id salt now) =
           users s @ [default_admin_row new_id salt now]"
proof -
  have g: "get_user_by_username s ''admin'' now = (None, s)"
    using get_user_by_username_absent [of "''admin''" s now] assms(1,2) by simp
  from assms(1,3) have "\<not> list_ex (\<lambda>r. uid r = new_id \<or> username r = ''admin'') (users s)"
    by (auto simp: list_ex_iff)
  with g show ?thesis
    by (simp add: create_default_admin_def create_user_def admin_data_def insert_user_def
          Let_def default_admin_row_def hash_password_def get_default_def log_auth_event_def)
qed

text \<open>
  C9. \<open>_create_default_admin\<close> leaves the user table as it is when a user named
  \<open>admin\<close> exists. When none exists, nothing is cached under \<open>username:admin\<close> (the cache
  is empty at startup) and the generated id is not yet a key of the table, it appends
  exactly one row, named \<open>admin\<close> with roles \<open>admin\<close> and \<open>user\<close>. In both cases a second
  bootstrap, with any other id, salt and time, leaves the table of the first.
\<close>

theorem create_default_admin_idempotent:
  "(list_ex (\<lambda>r. username r = ''admin'') (users s) \<longrightarrow>
      users (create_default_admin s new_id salt now) = users s) \<and>
   (\<not> list_ex (\<lambda>r. username r = ''admin'') (users s) \<and>
    user_cache s ''username:admin'' = None \<and>
    \<not> list_ex (\<lambda>r. uid r = new_id) (users s) \<longrightarrow>
      users (create_default_admin s new_id salt now) =
        users s @ [default_admin_row new_id salt now] \<and>
      length (filter (\<lambda>r. username r = ''admin'')
                (users (create_default_admin s new_id salt now))) = 1) \<and>
   (list_ex (\<lambda>r. username r = ''admin'') (users s) \<or>
    user_cache s ''username:admin'' = None \<and>
    \<not> list_ex (\<lambda>r. uid r = new_id) (users s) \<longrightarrow>
      users (create_default_admin (create_default_admin s new_id salt now)
               new_id' salt' now') =
        users (create_default_admin s new_id salt now))"
proof (intro conjI impI)
  assume "list_ex (\<lambda>r. username r = ''admin'') (users s)"
  then show "users (create_default_admin s new_id salt now) = users s"
    by (rule bootstrap_existing)
next
  assume h: "\<not> list_ex (\<lambda>r. username r = ''admin'') (users s) \<and>
    user_cache s ''username:admin'' = None \<and>
    \<not> list_ex (\<lambda>r. uid r = new_id) (users s)"
  then show c: "users (create_default_admin s new_id salt now) =
        users s @ [default_admin_row new_id salt now]"
    by (simp add: bootstrap_creates)
  from h have "filter (\<lambda>r. username r = ''admin'') (users s) = []"
    by (auto simp: list_ex_iff filter_empty_conv)
  with c show "length (filter (\<lambda>r. username r = ''admin'')
                (users (create_default_admin s new_id salt now))) = 1"
    by (simp add: default_admin_row_def)
next
  assume h: "list_ex (\<lambda>r. username r = ''admin'') (users s) \<or>
    user_cache s ''username:admin'' = None \<and>
    \<not> list_ex (\<lambda>r. uid r = new_id) (users s)"
  have "list_ex (\<lambda>r. username r = ''admin'')
          (users (create_default_admin s new_id salt now))"
  proof (cases "list_ex (\<lambda>r. username r = ''admin'') (users s)")
    case True
    then show ?thesis by (simp add: bootstrap_existing)
  next
    case False
    with h show ?thesis by (simp add: bootstrap_creates default_admin_row_def)
  qed
  then show "users (create_default_admin (create_default_admin s new_id salt now)
               new_id' salt' now') =
        users (create_default_admin s new_id salt now)"
    by (rule bootstrap_existing)
qed

text \<open>
  The theorem at startup over a table that holds \<open>alice\<close> only: the first bootstrap
  appends the administrator, the second changes nothing.
\<close>

theorem create_default_admin_idempotent_witness:
  "users (create_default_admin (init_user_service 5 30 [alice] []) ''a1'' ''salt1'' 10) =
     [alice, default_admin_row ''a1'' ''salt1'' 10] \<and>
   users (create_default_admin
            (create_default_admin (init_user_service 5 30 [alice] []) ''a1'' ''salt1'' 10)
            ''a2'' ''salt2'' 20) =
     [alice, default_admin_row ''a1'' ''salt1'' 10]"
  using create_default_admin_idempotent
          [of "init_user_service 5 30 [alice] []" "''a1''" "''salt1''" 10
              "''a2''" "''salt2''" 20]
  by (simp add: init_user_service_def alice_def)

subsection \<open>The cache after a mutation\<close>

lemmas eval_defs = lookup_defs auth_defs change_password_def rowcount_def hash_password_def
  last_reason_def Let_def alice_def suffix_to_prefix

text \<open>
  \<open>_invalidate_user_cache\<close> removes the entry keyed by the id. The entry keyed by the
  username stays, unless the username happens to end with a colon and the id.
\<close>

lemma invalidate_removes_id_key:
  "user_cache (invalidate_user_cache s i) (''user_id:'' @ i) = None"
  by (simp add: invalidate_user_cache_def startswith_def)

lemma invalidate_keeps_username_key:
  assumes "\<not> suffix ('':'' @ i) (''username:'' @ name)"
  shows "user_cache (invalidate_user_cache s i) (''username:'' @ name) =
           user_cache s (''username:'' @ name)"
  using assms by (simp add: invalidate_user_cache_def startswith_def endswith_def)

text \<open>
  C4 at a concrete input. Both cache entries of \<open>alice\<close> are live when her password is
  changed at time 1001. The change succeeds and the row holds the new hash; the entry
  under \<open>user_id:u1\<close> is gone, but the entry under \<open>username:alice\<close> is still there, and
  a read by name at 1002 returns the record with the old hash.
\<close>

theorem change_password_keeps_username_entry:
  "(case change_password warm_service ''u1'' ''new password'' ''salt1'' 1001 of
      (ok, s) \<Rightarrow>
        ok \<and>
        map pw_hash (users s) = [Bcrypt ''salt1'' ''new password''] \<and>
        user_cache s ''user_id:u1'' = None \<and>
        user_cache s ''username:alice'' = Some \<lparr>user = user_data_of alice, expires = 1300\<rparr> \<and>
        map_option pw_hash (fst (get_user_by_username s ''alice'' 1002)) =
          Some (Bcrypt ''salt0'' ''correct horse''))"
  by (simp add: warm_service_def eval_defs)

text \<open>
  C5 at a concrete input. \<open>alice\<close> logs in at time 1000, then changes her password at
  1001. At 1002 the new password is refused with \<open>invalid_password\<close> and the old one
  still authenticates: \<open>authenticate_user\<close> reads the record cached under her name.
\<close>

theorem changed_password_refused:
  "(case authenticate_user (init_user_service 5 30 [alice] []) ''alice'' ''correct horse'' 1000 of
      (u, s0) \<Rightarrow>
        u \<noteq> None \<and>
        (case change_password s0 ''u1'' ''new password'' ''salt1'' 1001 of
           (ok, s1) \<Rightarrow>
             ok \<and>
             fst (authenticate_user s1 ''alice'' ''new password'' 1002) = None \<and>
             last_reason (snd (authenticate_user s1 ''alice'' ''new password'' 1002)) =
               Some (JStr ''invalid_password'') \<and>
             fst (authenticate_user s1 ''alice'' ''correct horse'' 1002) \<noteq> None))"
  by (simp add: eval_defs)

text \<open>
  C3 at a concrete input. \<open>alice\<close> stands at 4 failed attempts of 5. A wrong password at
  time 1000 raises the count to 5 and sets \<open>locked_until\<close> to 1000 + 1800. One second
  later the right password authenticates all the same, from the record cached under her
  name, and the success path clears the lock.
\<close>

theorem lockout_bypassed_by_cached_record:
  "(case authenticate_user (init_user_service 5 30 [alice\<lparr>failed_login_attempts := 4\<rparr>] [])
           ''alice'' ''wrong'' 1000 of
      (u, s1) \<Rightarrow>
        u = None \<and>
        last_reason s1 = Some (JStr ''invalid_password'') \<and>
        map failed_login_attempts (users s1) = [5] \<and>
        map locked_until (users s1) = [Some 2800] \<and>
        (case authenticate_user s1 ''alice'' ''correct horse'' 1001 of
           (u', s2) \<Rightarrow> u' \<noteq> None \<and> map locked_until (users s2) = [None]))"
  by (simp add: eval_defs)

subsection \<open>Reads that come from the table\<close>

text \<open>
  When nothing is cached under the user's name, \<open>authenticate_user\<close> reads the row, and
  then the lock and a changed password take effect: a locked account is refused with
  \<open>account_locked\<close> whatever the password, and after \<open>change_password\<close> exactly the new
  password authenticates (for passwords of at most 72 bytes, the range the model of
  \<open>bcrypt\<close> covers).
\<close>

lemma authenticate_locked_from_table:
  assumes "user_cache s (''username:'' @ name) = None"
    and "filter (\<lambda>r. username r = name) (users s) = [m]"
    and "is_active m" and "locked_until m = Some t" and "now < t"
  shows "fst (authenticate_user s name password now) = None \<and>
         last_reason (snd (authenticate_user s name password now)) =
           Some (JStr ''account_locked'') \<and>
         users (snd (authenticate_user s name password now)) = users s"
  using assms
  by (simp add: authenticate_user_def get_user_by_username_def Let_def user_data_of_def
        log_auth_event_def last_reason_def)

lemma filter_update_where_id:
  assumes "\<And>r. username (f r) = username r"
  shows "filter (\<lambda>r. username r = name) (update_where_id i f table) =
           map (\<lambda>r. if uid r = i then f r else r) (filter (\<lambda>r. username r = name) table)"
  using assms by (induction table) (auto simp: update_where_id_def)

lemma authenticate_after_change_from_table:
  assumes c: "user_cache s (''username:'' @ name) = None"
    and f: "filter (\<lambda>r. username r = name) (users s) = [m]"
    and m: "uid m = i" "is_active m" "locked_until m = None"
    and short: "length p \<le> 72" "length p' \<le> 72"
  shows "fst (change_password s i p salt t1) \<and>
         fst (authenticate_user (snd (change_password s i p salt t1)) name p t2) \<noteq> None \<and>
         (p' \<noteq> p \<longrightarrow>
            fst (authenticate_user (snd (change_password s i p salt t1)) name p' t2) = None \<and>
            last_reason (snd (authenticate_user (snd (change_password s i p salt t1))
                                name p' t2)) =
              Some (JStr ''invalid_password''))"
proof -
  have "m \<in> set (filter (\<lambda>r. username r = name) (users s))"
    using f by simp
  then have "m \<in> set (users s)" by simp
  with m(1) have rc: "rowcount i (users s) > 0"
    by (auto simp: rowcount_def filter_empty_conv)
  let ?s1 = "snd (change_password s i p salt t1)"
  let ?m' = "m\<lparr>pw_hash := Bcrypt salt p, updated_at := Some t1\<rparr>"
  have u: "filter (\<lambda>r. username r = name) (users ?s1) = [?m']"
    using rc f m(1)
    by (simp add: change_password_def Let_def users_log users_invalidate
          filter_update_where_id hash_password_def)
  have k: "user_cache ?s1 (''username:'' @ name) = None"
    using rc c
    by (simp add: change_password_def Let_def log_auth_event_def invalidate_user_cache_def)
  from u k m(2,3) rc show ?thesis
    by (simp add: authenticate_user_def get_user_by_username_def Let_def user_data_of_def
        log_auth_event_def last_reason_def verify_password_hash_def change_password_def)
qed

section \<open>Properties of the login endpoint\<close>

lemmas login_defs = post_auth_login_def authn_login_def authn_respond_def
  authn_http_exception_handler_def authn_general_exception_handler_def dict_getattr_def
  except_http_reraise_def login_as_def issue_nothing_def

text \<open>
  \<open>POST /auth/login\<close> answers 401 or 500, whatever the state and the request: a refusal
  of \<open>authenticate_user\<close> is a 401, and after a success the handler fails on
  \<open>user.is_active\<close>. The status 423 is never sent.
\<close>

lemma login_status:
  "response_status returned_status (fst (post_auth_login rest s request now now_iso)) = 401 \<or>
   response_status returned_status (fst (post_auth_login rest s request now now_iso)) = 500"
  by (cases "authenticate_user s (login_username request) (login_password request) now")
     (auto simp: login_defs split: option.splits)

text \<open>
  C2 at a concrete input, with \<open>max_failed_attempts = 5\<close> and a lockout of 30 minutes.
  Five wrong passwords one second apart are each answered 401, and the right password
  one second later is answered 500: the count never passed 1, since each attempt read
  the record cached at the first. Five wrong passwords 400 seconds apart do lock the
  account (until 2600 + 1800); the right password at 3000 is then refused with
  \<open>account_locked\<close> in the audit log, and answered 401.
\<close>

theorem lockout_login_statuses:
  "fst (post_auth_logins issue_nothing (init_user_service 5 30 [alice] [])
          [(login_as ''alice'' ''wrong'', 1000, ''t0''),
           (login_as ''alice'' ''wrong'', 1001, ''t1''),
           (login_as ''alice'' ''wrong'', 1002, ''t2''),
           (login_as ''alice'' ''wrong'', 1003, ''t3''),
           (login_as ''alice'' ''wrong'', 1004, ''t4''),
           (login_as ''alice'' ''correct horse'', 1005, ''t5'')]) =
     [401, 401, 401, 401, 401, 500] \<and>
   (case post_auth_logins issue_nothing (init_user_service 5 30 [alice] [])
          [(login_as ''alice'' ''wrong'', 1000, ''t0''),
           (login_as ''alice'' ''wrong'', 1400, ''t1''),
           (login_as ''alice'' ''wrong'', 1800, ''t2''),
           (login_as ''alice'' ''wrong'', 2200, ''t3''),
           (login_as ''alice'' ''wrong'', 2600, ''t4''),
           (login_as ''alice'' ''correct horse'', 3000, ''t5'')] of
      (codes, s) \<Rightarrow>
        codes = [401, 401, 401, 401, 401, 401] \<and>
        map locked_until (users s) = [Some 4400] \<and>
        last_reason s = Some (JStr ''account_locked''))"
  by (simp add: eval_defs login_defs)

section \<open>Properties of the authorization service\<close>

text \<open>
  C10. Whatever exception the engine raises on a request (an HTTPException included),
  \<open>POST /authorize\<close> answers with a returned body, so with status 200, whose \<open>success\<close>
  is false and whose decision has effect DENY, \<open>cache_hit\<close> false and no obligations.
\<close>

theorem authz_authorize_fail_closed:
  assumes "engine request = Inl e"
  shows "(case post_authorize engine request now_iso of
            Returned r \<Rightarrow>
              \<not> success r \<and> effect (decision r) = DENY \<and> \<not> cache_hit (decision r) \<and>
              obligations (decision r) = [] \<and> request_id r = req_request_id request
          | JSONResponse c b \<Rightarrow> False) \<and>
         response_status returned_status (post_authorize engine request now_iso) = 200"
  using assms
  by (simp add: post_authorize_def authz_authorize_def authz_respond_def returned_status_def)

theorem authz_authorize_fail_closed_witness:
  "(case post_authorize engine_unavailable read_doc1 ''2026-01-01T00:00:00'' of
      Returned r \<Rightarrow>
        \<not> success r \<and> effect (decision r) = DENY \<and> \<not> cache_hit (decision r) \<and>
        obligations (decision r) = [] \<and> request_id r = ''r-1''
    | JSONResponse c b \<Rightarrow> False) \<and>
   response_status returned_status
     (post_authorize engine_unavailable read_doc1 ''2026-01-01T00:00:00'') = 200"
  using authz_authorize_fail_closed
          [of engine_unavailable read_doc1 "HTTPException 503 ''policy store unavailable''"
              "''2026-01-01T00:00:00''"]
  by (simp add: engine_unavailable_def read_doc1_def post_authorize_def authz_authorize_def
        authz_respond_def returned_status_def)

section \<open>Error bodies of the three services\<close>

lemmas envelope_defs = error_object_def error_field_def error_keys_def
  gateway_respond_def gateway_http_exception_handler_def gateway_general_exception_handler_def
  authn_respond_def authn_http_exception_handler_def authn_general_exception_handler_def
  authz_respond_def authz_http_exception_handler_def authz_general_exception_handler_def

text \<open>
  C7, as the code has it. For every exception a handler raises, the gateway's error
  object has exactly the keys \<open>code\<close>, \<open>message\<close>, \<open>path\<close>, \<open>timestamp\<close>, with the
  request's path and the clock reading as a number; the error objects of the
  authentication and the authorization service have exactly the keys \<open>code\<close>,
  \<open>message\<close>, \<open>timestamp\<close>, with the timestamp an ISO string and no \<open>path\<close>.
\<close>

theorem error_envelope_per_service:
  "error_keys (gateway_respond req now (Inl e)) =
     [''code'', ''message'', ''path'', ''timestamp''] \<and>
   error_field (gateway_respond req now (Inl e)) ''path'' = Some (JStr (url_path req)) \<and>
   error_field (gateway_respond req now (Inl e)) ''timestamp'' = Some (JNum now) \<and>
   error_keys (authn_respond now_iso (Inl e)) = [''code'', ''message'', ''timestamp''] \<and>
   error_field (authn_respond now_iso (Inl e)) ''timestamp'' = Some (JStr now_iso) \<and>
   error_keys (authz_respond now_iso (Inl e)) = [''code'', ''message'', ''timestamp''] \<and>
   error_field (authz_respond now_iso (Inl e)) ''timestamp'' = Some (JStr now_iso)"
  by (cases e) (simp_all add: envelope_defs)

text \<open>
  The claim as stated fails at a login of an unknown user: the 401 body of the
  authentication service has no \<open>path\<close> field.
\<close>

theorem error_envelope_counterexample:
  "response_status returned_status
     (fst (post_auth_login issue_nothing (init_user_service 5 30 [] [])
             \<lparr>login_username = ''bob'', login_password = ''x''\<rparr> 1000
             ''2026-01-01T00:00:00'')) = 401 \<and>
   error_field
     (fst (post_auth_login issue_nothing (init_user_service 5 30 [] [])
             \<lparr>login_username = ''bob'', login_password = ''x''\<rparr> 1000
             ''2026-01-01T00:00:00'')) ''path'' = None"
  by (simp add: post_auth_login_def authn_login_def lookup_defs auth_defs envelope_defs Let_def)

section \<open>Properties of the gateway\<close>

lemmas gateway_handler_defs = gateway_login_def gateway_logout_def gateway_refresh_token_def
  gateway_validate_token_def gateway_get_current_user_def gateway_update_current_user_def
  gateway_authorize_def gateway_authorize_bulk_def gateway_authorize_batch_optimized_def
  gateway_list_policies_def gateway_create_policy_def gateway_query_audit_log_def
  gateway_get_authorization_status_def gateway_proxy_request_def
  forward_def require_authenticated_def require_admin_def try_then_def
  except_exception_def except_http_reraise_def

subsection \<open>The fallback of \<open>authorize\<close>\<close>

text \<open>A handler returns a local JSON body only as the fallback of \<open>authorize\<close>.\<close>

lemma handler_local:
  "gateway_handler env r req now = Inr (JSONResponse c b) \<Longrightarrow>
     r = Authorize \<and> c = 200 \<and> b = fallback_body now"
  by (cases r)
     (auto simp: gateway_handler_defs
           split: sum.splits exn.splits if_splits option.splits prod.splits)

lemma fallback_not_envelope:
  "gateway_respond req now (Inl e) \<noteq> JSONResponse 200 (fallback_body t)"
  by (cases e)
     (simp_all add: gateway_respond_def gateway_http_exception_handler_def
        gateway_general_exception_handler_def fallback_body_def)

lemma gateway_fallback_route:
  "gateway env r req now = JSONResponse 200 (fallback_body t) \<Longrightarrow> r = Authorize"
proof (cases "gateway_handler env r req now")
  case (Inl e)
  assume "gateway env r req now = JSONResponse 200 (fallback_body t)"
  with Inl show ?thesis by (simp add: gateway_def fallback_not_envelope)
next
  case (Inr v)
  assume "gateway env r req now = JSONResponse 200 (fallback_body t)"
  with Inr have "gateway_handler env r req now = Inr (JSONResponse 200 (fallback_body t))"
    by (simp add: gateway_def gateway_respond_def)
  then show ?thesis by (rule handler_local [THEN conjunct1])
qed

lemma fallback_content:
  "decision_field (fallback_body now) ''effect'' = Some (JStr ''permit'') \<and>
   decision_field (fallback_body now) ''cache_hit'' = Some (JBool False) \<and>
   (case decision_field (fallback_body now) ''reason'' of
      Some (JStr s) \<Rightarrow> contains s ''development fallback'' | _ \<Rightarrow> False)"
  by (simp add: decision_field_def fallback_body_def)

text \<open>
  The source calls the fallback a development-mode answer to an unavailable
  authorization service, but the handler has no test of a mode or of the cause: the
  next lemma records that it answers so on any exception other than an HTTPException,
  one raised by the rate limiter included.
\<close>

lemma authorize_falls_back:
  assumes "check_rate_limit env req = Inl (Exception m) \<or>
           check_rate_limit env req = Inr () \<and>
           forward_request env
             \<lparr>service_name = ''authorization'', path = ''/authorize'', forward_method = ''POST'',
              forward_headers = headers req, forward_query_params = None,
              forward_body = Some (body req)\<rparr> = Inl (Exception m)"
  shows "gateway env Authorize req now = JSONResponse 200 (fallback_body now)"
  using assms
  by (auto simp: gateway_def gateway_respond_def gateway_handler_defs)

lemma authorize_passes_http_exception:
  assumes "check_rate_limit env req = Inr ()"
    and "forward_request env
           \<lparr>service_name = ''authorization'', path = ''/authorize'', forward_method = ''POST'',
            forward_headers = headers req, forward_query_params = None,
            forward_body = Some (body req)\<rparr> = Inl (HTTPException c d)"
  shows "gateway env Authorize req now = gateway_http_exception_handler req c d now"
  using assms
  by (simp add: gateway_def gateway_respond_def gateway_handler_defs)

lemma upstream_down_status:
  assumes down: "\<And>call. forward_request env call = Inl (Exception m)"
    and rl: "check_rate_limit env req = Inr ()"
    and au: "authenticate_request env req = Inr a" "auth_success a"
    and az: "\<And>k. check_authorization env k = Inr True"
    and r: "r \<noteq> Authorize"
  shows "response_status st (gateway env r req now) =
           (case r of ProxyRequest p \<Rightarrow> if proxy_target p = None then 404 else 500
            | _ \<Rightarrow> 500)"
  using r
  by (cases r)
     (auto simp: gateway_def gateway_respond_def gateway_http_exception_handler_def
        gateway_handler_defs down rl au az split: option.splits)

text \<open>
  C1, as the code has it. The synthetic permit (effect \<open>permit\<close>, a reason containing
  "development fallback", \<open>cache_hit\<close> false) is the answer of the route
  \<open>/api/v1/authz/authorize\<close> only. On every other route, when the upstream is unreachable
  (every forward raises an exception that is not an HTTPException) and the checks before
  forwarding pass, the client gets status 500; the generic route answers 404 for a path
  no service is found for.
\<close>

theorem gateway_fallback_amended:
  "(gateway env r req now = JSONResponse 200 (fallback_body t) \<longrightarrow> r = Authorize) \<and>
   ((\<forall>call. forward_request env call = Inl (Exception m)) \<and>
    check_rate_limit env req = Inr () \<and>
    authenticate_request env req = Inr a \<and> auth_success a \<and>
    (\<forall>k. check_authorization env k = Inr True) \<and> r \<noteq> Authorize
    \<longrightarrow> response_status st (gateway env r req now) =
          (case r of ProxyRequest p \<Rightarrow> if proxy_target p = None then 404 else 500
           | _ \<Rightarrow> 500)) \<and>
   decision_field (fallback_body now) ''effect'' = Some (JStr ''permit'') \<and>
   decision_field (fallback_body now) ''cache_hit'' = Some (JBool False) \<and>
   (case decision_field (fallback_body now) ''reason'' of
      Some (JStr s) \<Rightarrow> contains s ''development fallback'' | _ \<Rightarrow> False)"
proof (intro conjI impI)
  assume "gateway env r req now = JSONResponse 200 (fallback_body t)"
  then show "r = Authorize" by (rule gateway_fallback_route)
next
  assume h: "(\<forall>call. forward_request env call = Inl (Exception m)) \<and>
    check_rate_limit env req = Inr () \<and>
    authenticate_request env req = Inr a \<and> auth_success a \<and>
    (\<forall>k. check_authorization env k = Inr True) \<and> r \<noteq> Authorize"
  then show "response_status st (gateway env r req now) =
          (case r of ProxyRequest p \<Rightarrow> if proxy_target p = None then 404 else 500
           | _ \<Rightarrow> 500)"
    by (intro upstream_down_status [of env m req a r]) simp_all
qed (simp_all add: fallback_content)

text \<open>
  The theorem at an unreachable upstream: the fallback is the answer of \<open>authorize\<close>,
  and the creation of a policy is answered 500.
\<close>

theorem gateway_fallback_amended_witness:
  "gateway upstream_down Authorize (post_request ''/api/v1/authz/authorize'') 1700000000 =
     JSONResponse 200 (fallback_body 1700000000) \<and>
   response_status returned_status
     (gateway upstream_down CreatePolicy (post_request ''/api/v1/authz/policies'') 1700000000) =
     500"
  using gateway_fallback_amended
          [where env = upstream_down and r = CreatePolicy
             and req = "post_request ''/api/v1/authz/policies''" and now = 1700000000
             and m = "''All connection attempts failed''"
             and a = "\<lparr>auth_success = True, error_message = [], auth_user_id = ''u0''\<rparr>"
             and st = returned_status]
        gateway_fallback_amended
          [where env = upstream_down and r = Authorize
             and req = "post_request ''/api/v1/authz/authorize''" and now = 1700000000
             and t = 1700000000]
  by (simp add: upstream_down_def post_request_def gateway_def gateway_respond_def
        gateway_handler_defs)

text \<open>
  The claim as stated fails at an unreachable upstream: the bulk route and the creation
  of a policy answer with the error body of status 500, not 503.
\<close>

theorem gateway_unreachable_counterexample:
  "gateway upstream_down AuthorizeBulk (post_request ''/api/v1/authz/authorize/bulk'')
     1700000000 =
     JSONResponse 500
       (JObj [(''error'',
               JObj [(''code'', JNum 500),
                     (''message'', JStr ''Authorization service unavailable''),
                     (''path'', JStr ''/api/v1/authz/authorize/bulk''),
                     (''timestamp'', JNum 1700000000)])]) \<and>
   gateway upstream_down CreatePolicy (post_request ''/api/v1/authz/policies'') 1700000000 =
     JSONResponse 500
       (JObj [(''error'',
               JObj [(''code'', JNum 500),
                     (''message'', JStr ''Authorization service unavailable''),
                     (''path'', JStr ''/api/v1/authz/policies''),
                     (''timestamp'', JNum 1700000000)])])"
  by (simp add: gateway_def gateway_respond_def gateway_http_exception_handler_def
        gateway_handler_defs upstream_down_def post_request_def)

subsection \<open>The generic proxy route\<close>

lemma replace_first_prefix:
  "old \<noteq> [] \<Longrightarrow> replace_first old new (old @ rest) = new @ rest"
  by (cases old) auto

lemma replace_first_absent:
  "\<not> contains s old \<Longrightarrow> replace_first old new s = s"
  by (induction s) auto

lemma proxy_target_authentication:
  assumes "startswith p ''auth/'' \<or> startswith p ''users/''"
  shows "proxy_target p = Some (''authentication'', p)"
  using assms by (simp add: proxy_target_def)

lemma proxy_target_authz_prefix:
  assumes "startswith p ''authz/''"
  shows "proxy_target p = Some (''authorization'', drop 6 p)"
  using assms by (auto simp: proxy_target_def startswith_def prefix_def replace_first_prefix)

lemma proxy_target_policies:
  assumes "startswith p ''policies/''" and "\<not> contains p ''authz/''"
  shows "proxy_target p = Some (''authorization'', p)"
  using assms by (auto simp: proxy_target_def startswith_def prefix_def replace_first_absent)

lemma proxy_target_unmatched:
  assumes "\<not> startswith p ''auth/''" "\<not> startswith p ''users/''"
    "\<not> startswith p ''authz/''" "\<not> startswith p ''policies/''"
  shows "gateway env (ProxyRequest p) req now =
           gateway_http_exception_handler req 404 ''Service not found'' now"
  using assms
  by (simp add: proxy_target_def gateway_def gateway_respond_def gateway_proxy_request_def)

text \<open>
  C6 at a concrete input. For \<open>GET /api/v1/policies/authz/x\<close> the path starts with
  \<open>policies/\<close> and has no \<open>authz/\<close> prefix, yet the call forwarded to the authorization
  service has the path \<open>/policies/x\<close>: \<open>replace\<close> removed the first \<open>authz/\<close> it
  found, inside the path.
\<close>

theorem proxy_strips_inner_authz:
  "gateway upstream_echo (ProxyRequest ''policies/authz/x'')
     (get_request ''/api/v1/policies/authz/x'') 0 =
   Returned \<lparr>service_name = ''authorization'', path = ''/policies/x'',
             forward_method = ''GET'', forward_headers = [],
             forward_query_params = Some [], forward_body = None\<rparr>"
  by (simp add: gateway_def gateway_respond_def gateway_handler_defs upstream_echo_def
        get_request_def proxy_target_def startswith_def)

end
